theory Spec2Isabelle
  imports Main
begin

section \<open>Python values used by \<open>scripts/calendar_updater.py\<close>\<close>



definition isspace :: "char \<Rightarrow> bool" where
  "isspace c = (let n = (of_char c :: nat) in (9 \<le> n \<and> n \<le> 13) \<or> (28 \<le> n \<and> n \<le> 32))"

definition strip :: "string \<Rightarrow> string" where
  "strip s = rev (dropWhile isspace (rev (dropWhile isspace s)))"



text \<open>
  An optional string parameter used as a condition (\<open>if new_title:\<close>): \<open>None\<close> and the
  empty string are false.
\<close>

definition truthy :: "string option \<Rightarrow> bool" where
  "truthy p = (case p of None \<Rightarrow> False | Some s \<Rightarrow> s \<noteq> [])"

text \<open>
  An event is the dictionary the Calendar API returns. The program reads and writes the
  string-valued keys \<open>id\<close>, \<open>summary\<close>, \<open>description\<close>, \<open>location\<close> and
  \<open>colorId\<close>. \<open>dict_get d k dflt\<close> is \<open>d.get(k, dflt)\<close>.
\<close>

type_synonym event = "string \<rightharpoonup> string"

definition dict_get :: "event \<Rightarrow> string \<Rightarrow> string \<Rightarrow> string" where
  "dict_get d k dflt = (case d k of None \<Rightarrow> dflt | Some v \<Rightarrow> v)"

text \<open>
  The changed-field dictionary \<open>updates\<close> is kept as an association list in insertion
  order (the order in which \<open>print\<close> shows it). Each key is inserted at most once.
  \<open>dict_update d kvs\<close> is \<open>d.update(kvs)\<close>.
\<close>

type_synonym updates = "(string \<times> string) list"

definition dict_update :: "event \<Rightarrow> updates \<Rightarrow> event" where
  "dict_update d kvs = foldl (\<lambda>m (k, v). m(k \<mapsto> v)) d kvs"

section \<open>The remote service, the console and the errors\<close>

text \<open>
  A \<open>datetime\<close> is a number of seconds. The request of \<open>events().list\<close> carries the two
  bounds as they are (their rendering by \<open>isoformat() + 'Z'\<close> is not modelled).
\<close>

type_synonym datetime = int


record list_request =
  calendarId :: string
  timeMin :: datetime
  timeMax :: datetime
  maxResults :: int
  singleEvents :: bool
  orderBy :: string

text \<open>
  The service object \<open>self.service\<close> is external: it is a parameter of the model. Each
  call takes the remote state and returns either the message of the exception it raised
  (\<open>Inl\<close>) or its result, together with the remote state after the call. The result of
  \<open>list\<close> is the value under the key \<open>items\<close>, if the key is there.
\<close>

record 's service =
  events_list :: "'s \<Rightarrow> list_request \<Rightarrow> (string + event list option) \<times> 's"
  events_get :: "'s \<Rightarrow> string \<Rightarrow> string \<Rightarrow> (string + event) \<times> 's"
  events_update :: "'s \<Rightarrow> string \<Rightarrow> string \<Rightarrow> event \<Rightarrow> (string + event) \<times> 's"

datatype py_error =
    KeyError string
  | RemoteError string
  | FileNotFoundError string
  | AuthorizationError string

text \<open>The lines the program prints, and the remote calls it makes.\<close>

datatype line =
    SearchingLine datetime datetime
  | FoundMatchingLine nat string
  | FoundLine nat
  | DryRunLine string updates
  | UpdatedLine string
  | FailedLine string string

datatype call =
    ListCall list_request
  | GetCall string string
  | UpdateCall string string event

record 's world =
  stdout :: "line list"
  calls :: "call list"
  remote :: 's

section \<open>\<open>find_events\<close>\<close>



section \<open>\<open>bulk_update\<close>\<close>

text \<open>
  The dictionary \<open>updates\<close> built for one event (the block "Prepare updates"). The colour
  identifier is a string, on which \<open>str\<close> is the identity.
\<close>

definition prepare_updates ::
  "event \<Rightarrow> string option \<Rightarrow> string option \<Rightarrow> string option \<Rightarrow> string option \<Rightarrow> string option
     \<Rightarrow> updates" where
  "prepare_updates event new_title new_description new_location new_color_id append_to_description =
     (if truthy new_title then [(''summary'', the new_title)] else [])
   @ (if truthy new_description then [(''description'', the new_description)]
      else if truthy append_to_description then
        (let existing_desc = dict_get event ''description'' ''''
         in [(''description'', strip (existing_desc @ [CHR 0x0A] @ the append_to_description))])
      else [])
   @ (if truthy new_location then [(''location'', the new_location)] else [])
   @ (if truthy new_color_id then [(''colorId'', the new_color_id)] else [])"

text \<open>
  The body of the \<open>try\<close> block: read the full event, merge the updates into it, write it
  back. A failure of \<open>get\<close> or of \<open>update\<close> leaves the block with the exception's
  message.
\<close>

definition try_update ::
  "'s service \<Rightarrow> string \<Rightarrow> string \<Rightarrow> updates \<Rightarrow> 's world \<Rightarrow> (string + unit) \<times> 's world" where
  "try_update service calendar_id event_id updates w =
     (case events_get service (remote w) calendar_id event_id of
        (Inl msg, r1) \<Rightarrow>
          (Inl msg, w\<lparr>calls := calls w @ [GetCall calendar_id event_id], remote := r1\<rparr>)
      | (Inr full_event, r1) \<Rightarrow>
          (let body = dict_update full_event updates;
               w1 = w\<lparr>calls := calls w @ [GetCall calendar_id event_id,
                                            UpdateCall calendar_id event_id body]\<rparr>
           in case events_update service r1 calendar_id event_id body of
                (Inl msg, r2) \<Rightarrow> (Inl msg, w1\<lparr>remote := r2\<rparr>)
              | (Inr _, r2) \<Rightarrow> (Inr (), w1\<lparr>remote := r2\<rparr>)))"

text \<open>
  The \<open>for\<close> loop, with the counter \<open>updated_count\<close> as an accumulator. \<open>event['id']\<close>
  raises \<open>KeyError\<close> on an event without that key, outside the \<open>try\<close> block.
\<close>

fun bulk_update_loop ::
  "'s service \<Rightarrow> string \<Rightarrow> string option \<Rightarrow> string option \<Rightarrow> string option \<Rightarrow> string option
     \<Rightarrow> string option \<Rightarrow> bool \<Rightarrow> event list \<Rightarrow> int \<Rightarrow> 's world \<Rightarrow> (py_error + int) \<times> 's world" where
  "bulk_update_loop service calendar_id new_title new_description new_location new_color_id
      append_to_description dry_run [] updated_count w = (Inr updated_count, w)"
| "bulk_update_loop service calendar_id new_title new_description new_location new_color_id
      append_to_description dry_run (event # rest) updated_count w =
     (case event ''id'' of
        None \<Rightarrow> (Inl (KeyError ''id''), w)
      | Some event_id \<Rightarrow>
          (let event_title = dict_get event ''summary'' ''Untitled'';
               updates = prepare_updates event new_title new_description new_location
                           new_color_id append_to_description
           in if updates = [] then
                bulk_update_loop service calendar_id new_title new_description new_location
                  new_color_id append_to_description dry_run rest updated_count w
              else if dry_run then
                bulk_update_loop service calendar_id new_title new_description new_location
                  new_color_id append_to_description dry_run rest updated_count
                  (w\<lparr>stdout := stdout w @ [DryRunLine event_title updates]\<rparr>)
              else
                (case try_update service calendar_id event_id updates w of
                   (Inr _, w1) \<Rightarrow>
                     bulk_update_loop service calendar_id new_title new_description new_location
                       new_color_id append_to_description dry_run rest (updated_count + 1)
                       (w1\<lparr>stdout := stdout w1 @ [UpdatedLine event_title]\<rparr>)
                 | (Inl msg, w1) \<Rightarrow>
                     bulk_update_loop service calendar_id new_title new_description new_location
                       new_color_id append_to_description dry_run rest updated_count
                       (w1\<lparr>stdout := stdout w1 @ [FailedLine event_title msg]\<rparr>))))"

definition bulk_update ::
  "'s service \<Rightarrow> event list \<Rightarrow> string \<Rightarrow> string option \<Rightarrow> string option \<Rightarrow> string option
     \<Rightarrow> string option \<Rightarrow> string option \<Rightarrow> bool \<Rightarrow> 's world \<Rightarrow> (py_error + int) \<times> 's world" where
  "bulk_update service events calendar_id new_title new_description new_location new_color_id
      append_to_description dry_run w =
     bulk_update_loop service calendar_id new_title new_description new_location new_color_id
       append_to_description dry_run events 0 w"

section \<open>\<open>_authenticate\<close>\<close>







section \<open>A model of the remote service\<close>

text \<open>
  Modelled from the spec: the remote calendar service, an external collaborator whose
  code is not part of the repository. The spec describes it by three calls: the listing
  of a calendar, "get full event Y in calendar X", which returns the full event
  representation, and "update event Y in calendar X with body B", which returns the
  updated event or fails. The model is a store of events by calendar and event
  identifier: \<open>get\<close> returns the stored event, \<open>update\<close> replaces it by the body, both fail
  on an event the store does not hold, and \<open>update\<close> also fails on the identifiers in
  \<open>rejected\<close>. The listing is a parameter.
\<close>

type_synonym store = "(string \<times> string) \<rightharpoonup> event"

definition store_get :: "store \<Rightarrow> string \<Rightarrow> string \<Rightarrow> (string + event) \<times> store" where
  "store_get s calendar_id event_id =
     (case s (calendar_id, event_id) of
        None \<Rightarrow> (Inl ''Not Found'', s)
      | Some e \<Rightarrow> (Inr e, s))"

definition store_update ::
  "string list \<Rightarrow> store \<Rightarrow> string \<Rightarrow> string \<Rightarrow> event \<Rightarrow> (string + event) \<times> store" where
  "store_update rejected s calendar_id event_id body =
     (if event_id \<in> set rejected then (Inl ''Backend Error'', s)
      else case s (calendar_id, event_id) of
             None \<Rightarrow> (Inl ''Not Found'', s)
           | Some e \<Rightarrow> (Inr body, s((calendar_id, event_id) \<mapsto> body)))"

definition store_service ::
  "(list_request \<Rightarrow> string + event list option) \<Rightarrow> string list \<Rightarrow> store service" where
  "store_service listing rejected =
     \<lparr>events_list = (\<lambda>s req. (listing req, s)),
      events_get = store_get,
      events_update = store_update rejected\<rparr>"

section \<open>Notions of the specification\<close>




text \<open>A caller that runs \<open>bulk_update\<close> in dry-run mode \<open>n\<close> times in a row.\<close>

fun repeat_dry_run ::
  "nat \<Rightarrow> 's service \<Rightarrow> event list \<Rightarrow> string \<Rightarrow> string option \<Rightarrow> string option \<Rightarrow> string option
     \<Rightarrow> string option \<Rightarrow> string option \<Rightarrow> 's world \<Rightarrow> 's world" where
  "repeat_dry_run 0 service events calendar_id new_title new_description new_location
      new_color_id append_to_description w = w"
| "repeat_dry_run (Suc n) service events calendar_id new_title new_description new_location
      new_color_id append_to_description w =
     repeat_dry_run n service events calendar_id new_title new_description new_location
       new_color_id append_to_description
       (snd (bulk_update service events calendar_id new_title new_description new_location
               new_color_id append_to_description True w))"

text \<open>A parameter set to the empty string, read as an omitted one.\<close>

definition omit_empty :: "string option \<Rightarrow> string option" where
  "omit_empty p = (if p = Some [] then None else p)"

text \<open>An event that carries an identifier, and a console line of the dry-run mode.\<close>

definition has_id :: "event \<Rightarrow> bool" where
  "has_id e = (e ''id'' \<noteq> None)"

fun is_preview :: "line \<Rightarrow> bool" where
  "is_preview (DryRunLine t us) = True"
| "is_preview l = False"

text \<open>
  For the store model: the store in which every event under a key of \<open>K\<close> has had the
  updates merged into it, and the keys a live run writes (the events passed in, up to the
  first one without identifier, whose update is not rejected).
\<close>

definition merge_all :: "updates \<Rightarrow> (string \<times> string) set \<Rightarrow> store \<Rightarrow> store" where
  "merge_all us K s = (\<lambda>k. if k \<in> K then map_option (\<lambda>e. dict_update e us) (s k) else s k)"

fun written_keys :: "string \<Rightarrow> string list \<Rightarrow> event list \<Rightarrow> (string \<times> string) set" where
  "written_keys calendar_id rejected [] = {}"
| "written_keys calendar_id rejected (e # es) =
     (case e ''id'' of
        None \<Rightarrow> {}
      | Some event_id \<Rightarrow>
          (if event_id \<in> set rejected then {} else {(calendar_id, event_id)})
            \<union> written_keys calendar_id rejected es)"

section \<open>Strings: the substring test and comparison up to case\<close>









section \<open>\<open>find_events\<close>: the title filter\<close>



section \<open>The changed-field dictionary\<close>

lemma prepare_updates_eq_Nil:
  "prepare_updates event nt nd nl nc ap = [] \<longleftrightarrow>
     \<not> truthy nt \<and> \<not> truthy nd \<and> \<not> truthy ap \<and> \<not> truthy nl \<and> \<not> truthy nc"
  by (simp add: prepare_updates_def Let_def)

lemma prepare_updates_precedence:
  assumes "d \<noteq> []"
  shows "prepare_updates event nt (Some d) nl nc ap = prepare_updates event nt (Some d) nl nc None"
  using assms by (simp add: prepare_updates_def truthy_def)

lemma prepare_updates_no_append:
  "prepare_updates e nt nd nl nc None = prepare_updates e' nt nd nl nc None"
  by (simp add: prepare_updates_def truthy_def)

lemma truthy_omit_empty: "truthy (omit_empty p) = truthy p"
  by (cases p) (simp_all add: truthy_def omit_empty_def)

lemma the_omit_empty: "truthy p \<Longrightarrow> the (omit_empty p) = the p"
  by (cases p) (simp_all add: truthy_def omit_empty_def)

lemma prepare_updates_omit_empty:
  "prepare_updates e (omit_empty nt) (omit_empty nd) (omit_empty nl) (omit_empty nc) (omit_empty ap)
     = prepare_updates e nt nd nl nc ap"
  by (simp add: prepare_updates_def truthy_omit_empty the_omit_empty Let_def)

lemma prepare_updates_values:
  "list_all (\<lambda>(k, v). v \<noteq> [] \<or> (k = ''description'' \<and> \<not> truthy nd \<and> truthy ap))
     (prepare_updates event nt nd nl nc ap)"
  by (cases nt; cases nd; cases nl; cases nc) (simp_all add: prepare_updates_def truthy_def Let_def)

text \<open>
\<open>d.update(kvs)\<close> overrides \<open>d\<close> by the pairs of \<open>kvs\<close>; doing it twice changes nothing more.
\<close>

lemma dict_update_map_add: "dict_update d kvs = d ++ map_of (rev kvs)"
  unfolding dict_update_def
proof (induction kvs arbitrary: d)
  case Nil
  show ?case by simp
next
  case (Cons kv kvs)
  obtain k v where kv: "kv = (k, v)" by (cases kv)
  let ?put = "\<lambda>m (k, v). m(k \<mapsto> v)"
  have "foldl ?put d (kv # kvs) = foldl ?put (d(k \<mapsto> v)) kvs"
    by (simp add: kv)
  also have "\<dots> = d(k \<mapsto> v) ++ map_of (rev kvs)"
    by (rule Cons.IH)
  also have "\<dots> = d ++ (map_of [(k, v)] ++ map_of (rev kvs))"
    by (simp add: map_add_def fun_eq_iff split: option.splits)
  also have "\<dots> = d ++ map_of (rev (kv # kvs))"
    by (simp add: kv)
  finally show ?case .
qed

lemma dict_update_apply:
  "dict_update d kvs k = (case map_of (rev kvs) k of None \<Rightarrow> d k | Some v \<Rightarrow> Some v)"
  by (simp add: dict_update_map_add map_add_def)

lemma dict_update_idem: "dict_update (dict_update e us) us = dict_update e us"
  by (simp add: dict_update_map_add map_add_def fun_eq_iff split: option.splits)

lemma map_of_prepare_updates_description:
  "map_of (rev (prepare_updates event nt nd nl nc ap)) ''description''
     = map_of (prepare_updates event nt nd nl nc ap) ''description''"
  by (simp add: prepare_updates_def Let_def)

lemma map_of_prepare_updates_replace:
  assumes "d \<noteq> []"
  shows "map_of (prepare_updates event nt (Some d) nl nc ap) ''description'' = Some d"
  using assms by (simp add: prepare_updates_def truthy_def)

lemma map_of_prepare_updates_append:
  assumes "\<not> truthy nd" and "a \<noteq> []"
  shows "map_of (prepare_updates event nt nd nl nc (Some a)) ''description''
           = Some (strip (dict_get event ''description'' '''' @ [CHR 0x0A] @ a))"
  using assms by (simp add: prepare_updates_def truthy_def Let_def)

section \<open>The loop of \<open>bulk_update\<close>\<close>

text \<open>
Two calls whose parameters build the same dictionary for every event run alike.
\<close>

lemma loop_cong:
  assumes "\<And>e. prepare_updates e nt nd nl nc ap = prepare_updates e nt' nd' nl' nc' ap'"
  shows "bulk_update_loop service cal nt nd nl nc ap dry events cnt w
           = bulk_update_loop service cal nt' nd' nl' nc' ap' dry events cnt w"
proof -
  have dry_mode: "bulk_update_loop service cal nt nd nl nc ap True events cnt w
           = bulk_update_loop service cal nt' nd' nl' nc' ap' True events cnt w" for cnt w
  proof (induction events arbitrary: cnt w)
    case Nil
    show ?case by simp
  next
    case (Cons event rest)
    show ?case
      by (simp add: assms Cons.IH Let_def split: option.splits)
  qed
  have live_mode: "bulk_update_loop service cal nt nd nl nc ap False events cnt w
           = bulk_update_loop service cal nt' nd' nl' nc' ap' False events cnt w" for cnt w
  proof (induction events arbitrary: cnt w)
    case Nil
    show ?case by simp
  next
    case (Cons event rest)
    show ?case
      by (simp add: assms Cons.IH Let_def split: option.splits prod.splits sum.splits)
  qed
  show ?thesis by (cases dry) (simp_all add: dry_mode live_mode)
qed

lemma loop_no_updates:
  assumes "list_all has_id events"
    and "\<And>e. prepare_updates e nt nd nl nc ap = []"
  shows "bulk_update_loop service cal nt nd nl nc ap dry events cnt w = (Inr cnt, w)"
  using assms by (induction events) (auto simp: has_id_def)

subsection \<open>The \<open>try\<close> block\<close>

lemma try_update_frame:
  "\<exists>res cs r. try_update service calendar_id event_id us w = (res, w\<lparr>calls := calls w @ cs, remote := r\<rparr>)"
  by (auto simp: try_update_def Let_def split: prod.splits sum.splits)

lemma try_update_stdout:
  "stdout (snd (try_update service calendar_id event_id us w)) = stdout w"
  by (auto simp: try_update_def Let_def split: prod.splits sum.splits)

lemma try_update_failure_iff:
  "fst (try_update service calendar_id event_id us w) = Inl msg \<longleftrightarrow>
     (\<exists>r. events_get service (remote w) calendar_id event_id = (Inl msg, r)) \<or>
     (\<exists>full_event r r'.
        events_get service (remote w) calendar_id event_id = (Inr full_event, r) \<and>
        events_update service r calendar_id event_id (dict_update full_event us) = (Inl msg, r'))"
  by (auto simp: try_update_def Let_def split: prod.splits sum.splits)

lemma try_update_failure:
  assumes "events_get service (remote w) calendar_id event_id = (Inl msg, r)
         \<or> (\<exists>full_event r'.
               events_get service (remote w) calendar_id event_id = (Inr full_event, r') \<and>
               events_update service r' calendar_id event_id (dict_update full_event us)
                 = (Inl msg, r))"
  shows "\<exists>w'. try_update service calendar_id event_id us w = (Inl msg, w')
              \<and> remote w' = r \<and> stdout w' = stdout w"
  using assms by (auto simp: try_update_def Let_def)

subsection \<open>Dry-run mode\<close>

text \<open>
The loop in dry-run mode changes nothing of the world but the console.
\<close>

lemma dry_loop_frame:
  "\<exists>out. snd (bulk_update_loop service cal nt nd nl nc ap True events cnt w)
           = w\<lparr>stdout := stdout w @ out\<rparr> \<and> list_all is_preview out"
proof (induction events arbitrary: w)
  case Nil
  show ?case by (rule exI [of _ "[]"]) simp
next
  case (Cons event rest)
  show ?case
  proof (cases "event ''id''")
    case None
    then show ?thesis by (intro exI [of _ "[]"]) simp
  next
    case (Some event_id)
    show ?thesis
    proof (cases "prepare_updates event nt nd nl nc ap = []")
      case True
      with Some Cons.IH [of w] show ?thesis by simp
    next
      case False
      let ?l = "DryRunLine (dict_get event ''summary'' ''Untitled'') (prepare_updates event nt nd nl nc ap)"
      from Cons.IH [of "w\<lparr>stdout := stdout w @ [?l]\<rparr>"]
      obtain out where
        "snd (bulk_update_loop service cal nt nd nl nc ap True rest cnt (w\<lparr>stdout := stdout w @ [?l]\<rparr>))
           = w\<lparr>stdout := stdout w @ (?l # out)\<rparr>" and "list_all is_preview out"
        by auto
      then have "snd (bulk_update_loop service cal nt nd nl nc ap True (event # rest) cnt w)
           = w\<lparr>stdout := stdout w @ (?l # out)\<rparr> \<and> list_all is_preview (?l # out)"
        using Some False by (simp add: Let_def)
      then show ?thesis by blast
    qed
  qed
qed

lemma dry_loop_count:
  "fst (bulk_update_loop service cal nt nd nl nc ap True events cnt w) = Inr n \<Longrightarrow> n = cnt"
  by (induction events arbitrary: w) (auto simp: Let_def split: option.splits if_splits)

subsection \<open>The counter\<close>

text \<open>
The counter grows by at most one per event.
\<close>

lemma live_loop_count_bounds:
  "fst (bulk_update_loop service cal nt nd nl nc ap False events cnt w) = Inr n
     \<Longrightarrow> cnt \<le> n \<and> n \<le> cnt + int (length events)"
proof (induction events arbitrary: cnt w)
  case Nil
  then show ?case by simp
next
  case (Cons event rest)
  from Cons.prems show ?case
    by (auto simp: Let_def split: option.splits if_splits prod.splits sum.splits dest!: Cons.IH)
qed

lemma loop_count_bounds:
  assumes "fst (bulk_update_loop service cal nt nd nl nc ap dry events cnt w) = Inr n"
  shows "cnt \<le> n \<and> n \<le> cnt + int (length events) \<and> (dry \<longrightarrow> n = cnt)"
proof (cases dry)
  case True
  with assms show ?thesis using dry_loop_count by fastforce
next
  case False
  with assms show ?thesis using live_loop_count_bounds by fastforce
qed

text \<open>
The live loop started at the counter \<open>cnt + k\<close> runs as the loop started at \<open>cnt\<close>,
and the loop over two lists in a row is the loop over the second after the first.
\<close>

lemma live_loop_shift:
  "bulk_update_loop service cal nt nd nl nc ap False events (cnt + k) w
     = apfst (map_sum (\<lambda>e. e) (\<lambda>n. n + k)) (bulk_update_loop service cal nt nd nl nc ap False events cnt w)"
proof (induction events arbitrary: cnt w)
  case Nil
  show ?case by simp
next
  case (Cons event rest)
  have more: "bulk_update_loop service cal nt nd nl nc ap False rest (cnt + k + 1) w'
     = apfst (map_sum (\<lambda>e. e) (\<lambda>n. n + k))
         (bulk_update_loop service cal nt nd nl nc ap False rest (cnt + 1) w')" for w'
    using Cons.IH [of "cnt + 1" w'] by (simp add: add.commute add.left_commute)
  show ?case
    by (simp add: Cons.IH more Let_def split: option.splits prod.splits sum.splits)
qed

lemma live_loop_from_zero:
  assumes "bulk_update_loop service cal nt nd nl nc ap False events 0 w = (Inr n, w')"
  shows "bulk_update_loop service cal nt nd nl nc ap False events cnt w = (Inr (cnt + n), w')"
  using live_loop_shift [of service cal nt nd nl nc ap events 0 cnt w] assms
  by (simp add: add.commute)

lemma live_loop_append:
  assumes "bulk_update_loop service cal nt nd nl nc ap False xs cnt w = (Inr n, w')"
  shows "bulk_update_loop service cal nt nd nl nc ap False (xs @ ys) cnt w
           = bulk_update_loop service cal nt nd nl nc ap False ys n w'"
  using assms
proof (induction xs arbitrary: cnt w)
  case Nil
  then show ?case by simp
next
  case (Cons event rest)
  from Cons.prems show ?case
    by (auto simp: Let_def split: option.splits if_splits prod.splits sum.splits
          intro: Cons.IH)
qed

subsection \<open>Exceptions\<close>

text \<open>
The loop raises only on an event without identifier.
\<close>

lemma dry_loop_raises:
  "fst (bulk_update_loop service cal nt nd nl nc ap True events cnt w) = Inl err
     \<Longrightarrow> err = KeyError ''id'' \<and> \<not> list_all has_id events"
proof (induction events arbitrary: cnt w)
  case Nil
  then show ?case by simp
next
  case (Cons event rest)
  from Cons.prems show ?case
    by (auto simp: Let_def has_id_def split: option.splits if_splits dest!: Cons.IH)
qed

lemma live_loop_raises:
  "fst (bulk_update_loop service cal nt nd nl nc ap False events cnt w) = Inl err
     \<Longrightarrow> err = KeyError ''id'' \<and> \<not> list_all has_id events"
proof (induction events arbitrary: cnt w)
  case Nil
  then show ?case by simp
next
  case (Cons event rest)
  from Cons.prems show ?case
    by (auto simp: Let_def has_id_def split: option.splits if_splits prod.splits sum.splits
          dest!: Cons.IH)
qed

lemma loop_raises:
  assumes "fst (bulk_update_loop service cal nt nd nl nc ap dry events cnt w) = Inl err"
  shows "err = KeyError ''id'' \<and> \<not> list_all has_id events"
proof (cases dry)
  case True
  with assms have "fst (bulk_update_loop service cal nt nd nl nc ap True events cnt w) = Inl err"
    by simp
  then show ?thesis by (rule dry_loop_raises)
next
  case False
  with assms have "fst (bulk_update_loop service cal nt nd nl nc ap False events cnt w) = Inl err"
    by simp
  then show ?thesis by (rule live_loop_raises)
qed

lemma loop_returns:
  assumes "list_all has_id events"
  shows "\<exists>n. fst (bulk_update_loop service cal nt nd nl nc ap dry events cnt w) = Inr n"
proof (cases "fst (bulk_update_loop service cal nt nd nl nc ap dry events cnt w)")
  case (Inl err)
  with assms show ?thesis using loop_raises by blast
next
  case (Inr n)
  then show ?thesis by blast
qed

section \<open>Properties of \<open>bulk_update\<close>\<close>

subsection \<open>Replacement and append of the description\<close>

text \<open>
Claim C2, amended. When a non-empty full description is supplied together with an
append text, the full description is the value under \<open>description\<close> in the
changed-field dictionary of every event and in the body written back, and the call
runs exactly as the call without the append text.
\<close>

theorem full_description_takes_precedence:
  assumes "new_description \<noteq> []"
  shows "map_of (prepare_updates event nt (Some new_description) nl nc ap) ''description''
           = Some new_description
       \<and> dict_update full_event (prepare_updates event nt (Some new_description) nl nc ap)
             ''description'' = Some new_description
       \<and> bulk_update service events calendar_id nt (Some new_description) nl nc ap dry_run w
           = bulk_update service events calendar_id nt (Some new_description) nl nc None dry_run w"
proof -
  have "bulk_update service events calendar_id nt (Some new_description) nl nc ap dry_run w
          = bulk_update service events calendar_id nt (Some new_description) nl nc None dry_run w"
    unfolding bulk_update_def
    by (rule loop_cong) (rule prepare_updates_precedence [OF assms])
  then show ?thesis
    using assms
    by (simp add: dict_update_apply map_of_prepare_updates_description map_of_prepare_updates_replace)
qed

text \<open>
A dry run with both parameters: the preview shows the replacement alone.
\<close>

theorem full_description_takes_precedence_witness:
  "bulk_update (store_service (\<lambda>req. Inr None) [])
     [[''id'' \<mapsto> ''1'', ''summary'' \<mapsto> ''Team Meeting'', ''description'' \<mapsto> ''Agenda: X'']]
     ''primary'' None (Some ''Rewritten'') None None (Some ''Updated'') True
     \<lparr>stdout = [], calls = [], remote = Map.empty\<rparr>
   = (Inr 0, \<lparr>stdout = [DryRunLine ''Team Meeting'' [(''description'', ''Rewritten'')]],
              calls = [], remote = Map.empty\<rparr>)"
  using full_description_takes_precedence [where new_description = "''Rewritten''"
      and service = "store_service (\<lambda>req. Inr None) []"
      and events = "[[''id'' \<mapsto> ''1'', ''summary'' \<mapsto> ''Team Meeting'', ''description'' \<mapsto> ''Agenda: X'']]"
      and calendar_id = "''primary''" and nt = None and nl = None and nc = None
      and ap = "Some ''Updated''" and dry_run = True
      and w = "\<lparr>stdout = [], calls = [], remote = Map.empty\<rparr>"]
  by (simp add: bulk_update_def prepare_updates_def truthy_def dict_get_def Let_def)

text \<open>
The claim as stated fails for the empty replacement: \<open>new_description = ""\<close> is false as
a condition, so the append text is applied and the empty string is not what is written.
\<close>

theorem empty_replacement_counterexample:
  "map_of (prepare_updates [''id'' \<mapsto> ''1'', ''description'' \<mapsto> ''Agenda: X'']
             None (Some '''') None None (Some ''Updated'')) ''description''
     = Some (''Agenda: X'' @ [CHR 0x0A] @ ''Updated'')
   \<and> map_of (prepare_updates [''id'' \<mapsto> ''1'', ''description'' \<mapsto> ''Agenda: X'']
             None (Some '''') None None (Some ''Updated'')) ''description''
     \<noteq> Some ''''"
  by (simp add: prepare_updates_def truthy_def dict_get_def Let_def strip_def isspace_def)




subsection \<open>Empty parameters\<close>

text \<open>
Claim C9, amended. A call with parameters set to the empty string runs exactly as the
call with these parameters omitted. No direct replacement writes an empty string: a
value of the changed-field dictionary is empty only under \<open>description\<close>, written by
the append. An empty \<open>new_description\<close> with a non-empty append text applies the append.
\<close>

theorem empty_string_parameters_are_omitted:
  "bulk_update service events calendar_id nt nd nl nc ap dry_run w
     = bulk_update service events calendar_id (omit_empty nt) (omit_empty nd) (omit_empty nl)
         (omit_empty nc) (omit_empty ap) dry_run w
   \<and> list_all (\<lambda>(k, v). v \<noteq> [] \<or> (k = ''description'' \<and> \<not> truthy nd \<and> truthy ap))
        (prepare_updates event nt nd nl nc ap)
   \<and> (a \<noteq> [] \<longrightarrow>
        map_of (prepare_updates event nt (Some []) nl nc (Some a)) ''description''
          = Some (strip (dict_get event ''description'' '''' @ [CHR 0x0A] @ a)))"
proof -
  have "bulk_update service events calendar_id nt nd nl nc ap dry_run w
     = bulk_update service events calendar_id (omit_empty nt) (omit_empty nd) (omit_empty nl)
         (omit_empty nc) (omit_empty ap) dry_run w"
    unfolding bulk_update_def
    by (rule loop_cong) (simp add: prepare_updates_omit_empty)
  moreover have "a \<noteq> [] \<longrightarrow>
        map_of (prepare_updates event nt (Some []) nl nc (Some a)) ''description''
          = Some (strip (dict_get event ''description'' '''' @ [CHR 0x0A] @ a))"
    by (simp add: map_of_prepare_updates_append truthy_def)
  ultimately show ?thesis using prepare_updates_values by blast
qed

text \<open>
A dry run with a title and two empty parameters, and the append under an empty
replacement.
\<close>

theorem empty_string_parameters_are_omitted_witness:
  "bulk_update (store_service (\<lambda>req. Inr None) [])
     [[''id'' \<mapsto> ''1'', ''summary'' \<mapsto> ''Team Meeting'']]
     ''primary'' (Some ''Team Sync'') None (Some '''') (Some '''') None True
     \<lparr>stdout = [], calls = [], remote = Map.empty\<rparr>
   = (Inr 0, \<lparr>stdout = [DryRunLine ''Team Meeting'' [(''summary'', ''Team Sync'')]],
              calls = [], remote = Map.empty\<rparr>)
   \<and> map_of (prepare_updates [''id'' \<mapsto> ''1'', ''description'' \<mapsto> ''Agenda: X'']
               None (Some '''') None None (Some ''Updated'')) ''description''
       = Some (''Agenda: X'' @ [CHR 0x0A] @ ''Updated'')"
  using empty_string_parameters_are_omitted [where service = "store_service (\<lambda>req. Inr None) []"
      and events = "[[''id'' \<mapsto> ''1'', ''summary'' \<mapsto> ''Team Meeting'']]"
      and calendar_id = "''primary''" and nt = "Some ''Team Sync''" and nd = None
      and nl = "Some ''''" and nc = "Some ''''" and ap = None and dry_run = True
      and w = "\<lparr>stdout = [], calls = [], remote = Map.empty\<rparr>"
      and a = "''Updated''" and event = "[''id'' \<mapsto> ''1'', ''description'' \<mapsto> ''Agenda: X'']"]
  by (simp add: bulk_update_def prepare_updates_def truthy_def dict_get_def Let_def omit_empty_def
        strip_def isspace_def)

text \<open>
The claim as stated fails where it says that no field can be set to the empty string:
appending a blank to an event without description writes the empty description.
\<close>

theorem blank_append_counterexample:
  "prepare_updates [''id'' \<mapsto> ''1'', ''summary'' \<mapsto> ''Lunch'']
     None None None None (Some '' '') = [(''description'', '''')]
   \<and> fst (bulk_update (store_service (\<lambda>req. Inr None) [])
            [[''id'' \<mapsto> ''1'', ''summary'' \<mapsto> ''Lunch'']]
            ''primary'' None None None None (Some '' '') False
            \<lparr>stdout = [], calls = [],
             remote = [(''primary'', ''1'') \<mapsto> [''id'' \<mapsto> ''1'', ''summary'' \<mapsto> ''Lunch'']]\<rparr>)
       = Inr 1
   \<and> Option.bind
        (remote (snd (bulk_update (store_service (\<lambda>req. Inr None) [])
            [[''id'' \<mapsto> ''1'', ''summary'' \<mapsto> ''Lunch'']]
            ''primary'' None None None None (Some '' '') False
            \<lparr>stdout = [], calls = [],
             remote = [(''primary'', ''1'') \<mapsto> [''id'' \<mapsto> ''1'', ''summary'' \<mapsto> ''Lunch'']]\<rparr>))
           (''primary'', ''1''))
        (\<lambda>e. e ''description'')
       = Some ''''"
  by (simp add: bulk_update_def prepare_updates_def truthy_def dict_get_def Let_def
        strip_def isspace_def try_update_def store_service_def store_get_def store_update_def
        dict_update_def)

subsection \<open>The empty update\<close>

text \<open>
Claim C4. With no update field supplied, \<open>bulk_update\<close> over events that carry their
identifier returns the count 0 and leaves the world as it found it: every event is
skipped, nothing is printed and no remote call is made, in dry-run and in live mode.
\<close>

theorem bulk_update_empty_spec:
  assumes "list_all has_id events"
  shows "bulk_update service events calendar_id None None None None None dry_run w = (Inr 0, w)"
  unfolding bulk_update_def using assms
  by (rule loop_no_updates) (simp add: prepare_updates_eq_Nil truthy_def)

text \<open>
Two events, no field, live mode.
\<close>

theorem bulk_update_empty_spec_witness:
  "bulk_update (store_service (\<lambda>req. Inr None) [])
     [[''id'' \<mapsto> ''1'', ''summary'' \<mapsto> ''Team Meeting''], [''id'' \<mapsto> ''2'']]
     ''primary'' None None None None None False
     \<lparr>stdout = [], calls = [], remote = Map.empty\<rparr>
   = (Inr 0, \<lparr>stdout = [], calls = [], remote = Map.empty\<rparr>)"
  using bulk_update_empty_spec [of
      "[[''id'' \<mapsto> ''1'', ''summary'' \<mapsto> ''Team Meeting''], [''id'' \<mapsto> ''2'']]"
      "store_service (\<lambda>req. Inr None) []" "''primary''" False
      "\<lparr>stdout = [], calls = [], remote = Map.empty\<rparr>"]
  by (simp add: has_id_def)

subsection \<open>Dry run\<close>

text \<open>
Claim C5. Running \<open>bulk_update\<close> in dry-run mode any number of times makes no remote
call and leaves the remote state as it was; the console alone grows, by preview lines.
\<close>

theorem dry_run_leaves_remote_untouched:
  "remote (repeat_dry_run n service events calendar_id nt nd nl nc ap w) = remote w \<and>
   calls (repeat_dry_run n service events calendar_id nt nd nl nc ap w) = calls w \<and>
   (\<exists>out. stdout (repeat_dry_run n service events calendar_id nt nd nl nc ap w) = stdout w @ out
          \<and> list_all is_preview out)"
proof (induction n arbitrary: w)
  case 0
  show ?case by simp
next
  case (Suc n)
  let ?w1 = "snd (bulk_update service events calendar_id nt nd nl nc ap True w)"
  obtain out1 where w1: "?w1 = w\<lparr>stdout := stdout w @ out1\<rparr>" and p1: "list_all is_preview out1"
    unfolding bulk_update_def using dry_loop_frame by blast
  from Suc.IH [of ?w1] obtain out2
    where r: "remote (repeat_dry_run n service events calendar_id nt nd nl nc ap ?w1) = remote ?w1"
      and c: "calls (repeat_dry_run n service events calendar_id nt nd nl nc ap ?w1) = calls ?w1"
      and s: "stdout (repeat_dry_run n service events calendar_id nt nd nl nc ap ?w1) = stdout ?w1 @ out2"
      and p2: "list_all is_preview out2"
    by blast
  have "remote ?w1 = remote w" "calls ?w1 = calls w" "stdout ?w1 = stdout w @ out1"
    by (subst w1, simp)+
  with r c s have
    "remote (repeat_dry_run (Suc n) service events calendar_id nt nd nl nc ap w) = remote w"
    "calls (repeat_dry_run (Suc n) service events calendar_id nt nd nl nc ap w) = calls w"
    "stdout (repeat_dry_run (Suc n) service events calendar_id nt nd nl nc ap w) = stdout w @ (out1 @ out2)"
    by simp_all
  moreover from p1 p2 have "list_all is_preview (out1 @ out2)" by simp
  ultimately show ?case by blast
qed

text \<open>
Two dry runs of a colour update over one event.
\<close>

theorem dry_run_leaves_remote_untouched_witness:
  "remote (repeat_dry_run 2 (store_service (\<lambda>req. Inr None) [])
             [[''id'' \<mapsto> ''1'', ''summary'' \<mapsto> ''Team Meeting'']] ''primary''
             None None None (Some ''9'') None
             \<lparr>stdout = [], calls = [],
              remote = [(''primary'', ''1'') \<mapsto> [''id'' \<mapsto> ''1'', ''summary'' \<mapsto> ''Team Meeting'']]\<rparr>)
     = [(''primary'', ''1'') \<mapsto> [''id'' \<mapsto> ''1'', ''summary'' \<mapsto> ''Team Meeting'']] \<and>
   calls (repeat_dry_run 2 (store_service (\<lambda>req. Inr None) [])
             [[''id'' \<mapsto> ''1'', ''summary'' \<mapsto> ''Team Meeting'']] ''primary''
             None None None (Some ''9'') None
             \<lparr>stdout = [], calls = [],
              remote = [(''primary'', ''1'') \<mapsto> [''id'' \<mapsto> ''1'', ''summary'' \<mapsto> ''Team Meeting'']]\<rparr>)
     = [] \<and>
   stdout (repeat_dry_run 2 (store_service (\<lambda>req. Inr None) [])
             [[''id'' \<mapsto> ''1'', ''summary'' \<mapsto> ''Team Meeting'']] ''primary''
             None None None (Some ''9'') None
             \<lparr>stdout = [], calls = [],
              remote = [(''primary'', ''1'') \<mapsto> [''id'' \<mapsto> ''1'', ''summary'' \<mapsto> ''Team Meeting'']]\<rparr>)
     = [DryRunLine ''Team Meeting'' [(''colorId'', ''9'')],
        DryRunLine ''Team Meeting'' [(''colorId'', ''9'')]]"
  using dry_run_leaves_remote_untouched [of 2 "store_service (\<lambda>req. Inr None) []"
          "[[''id'' \<mapsto> ''1'', ''summary'' \<mapsto> ''Team Meeting'']]" "''primary''"
          None None None "Some ''9''" None
          "\<lparr>stdout = [], calls = [],
              remote = [(''primary'', ''1'') \<mapsto> [''id'' \<mapsto> ''1'', ''summary'' \<mapsto> ''Team Meeting'']]\<rparr>"]
  by (simp add: numeral_2_eq_2 bulk_update_def prepare_updates_def truthy_def dict_get_def Let_def)

subsection \<open>Failures in live mode\<close>

text \<open>
Claim C6. In live mode, over events that carry their identifier and with some field to
update: when, after the events before it have been processed, the \<open>get\<close> call of an
event fails, or its \<open>get\<close> call succeeds and its \<open>update\<close> call fails, the call of
\<open>bulk_update\<close> still returns a count; the failure is printed with the event's title and
the message; the events after it are processed from the remote state the failed call
left; and the count is that of the events before plus that of the events after, each
at most the number of these events, so the failed event is not counted.
\<close>

theorem live_failure_is_isolated:
  assumes ids: "list_all has_id (before @ event # after)"
    and event_id: "event ''id'' = Some event_id"
    and spec: "prepare_updates event nt nd nl nc ap \<noteq> []"
    and pre: "bulk_update service before calendar_id nt nd nl nc ap False w = (Inr n1, w1)"
    and fail:
      "events_get service (remote w1) calendar_id event_id = (Inl msg, r)
       \<or> (\<exists>full_event r'.
             events_get service (remote w1) calendar_id event_id = (Inr full_event, r') \<and>
             events_update service r' calendar_id event_id
               (dict_update full_event (prepare_updates event nt nd nl nc ap)) = (Inl msg, r))"
  shows "\<exists>n2 w2 w3.
           remote w2 = r
         \<and> stdout w2 = stdout w1 @ [FailedLine (dict_get event ''summary'' ''Untitled'') msg]
         \<and> bulk_update service after calendar_id nt nd nl nc ap False w2 = (Inr n2, w3)
         \<and> bulk_update service (before @ event # after) calendar_id nt nd nl nc ap False w
             = (Inr (n1 + n2), w3)
         \<and> n1 \<le> int (length before) \<and> n2 \<le> int (length after)"
proof -
  let ?us = "prepare_updates event nt nd nl nc ap"
  let ?line = "FailedLine (dict_get event ''summary'' ''Untitled'') msg"
  from fail obtain w' where
    tu: "try_update service calendar_id event_id ?us w1 = (Inl msg, w')"
    and w': "remote w' = r" "stdout w' = stdout w1"
    using try_update_failure [of service w1 calendar_id event_id msg r ?us] by auto
  let ?w2 = "w'\<lparr>stdout := stdout w' @ [?line]\<rparr>"
  from ids have "list_all has_id after" by simp
  then obtain n2 where
    "fst (bulk_update_loop service calendar_id nt nd nl nc ap False after 0 ?w2) = Inr n2"
    using loop_returns by blast
  then obtain w3 where
    post: "bulk_update_loop service calendar_id nt nd nl nc ap False after 0 ?w2 = (Inr n2, w3)"
    by (metis prod.collapse)
  have "bulk_update_loop service calendar_id nt nd nl nc ap False (before @ event # after) 0 w
          = bulk_update_loop service calendar_id nt nd nl nc ap False (event # after) n1 w1"
    using pre unfolding bulk_update_def by (rule live_loop_append)
  also have "\<dots> = bulk_update_loop service calendar_id nt nd nl nc ap False after n1 ?w2"
    using event_id spec tu by (simp add: Let_def)
  also have "\<dots> = (Inr (n1 + n2), w3)"
    using post by (rule live_loop_from_zero)
  finally have whole:
    "bulk_update service (before @ event # after) calendar_id nt nd nl nc ap False w
       = (Inr (n1 + n2), w3)"
    by (simp add: bulk_update_def)
  from pre have n1: "n1 \<le> int (length before)"
    using live_loop_count_bounds [of service calendar_id nt nd nl nc ap before 0 w n1]
    by (simp add: bulk_update_def)
  from post have n2: "n2 \<le> int (length after)"
    using live_loop_count_bounds [of service calendar_id nt nd nl nc ap after 0 ?w2 n2]
    by simp
  have "remote ?w2 = r" "stdout ?w2 = stdout w1 @ [?line]"
    using w' by simp_all
  moreover have "bulk_update service after calendar_id nt nd nl nc ap False ?w2 = (Inr n2, w3)"
    using post by (simp add: bulk_update_def)
  ultimately show ?thesis using whole n1 n2 by blast
qed

text \<open>
The scenario of the specification: three events, the update of the second is rejected.
\<close>

theorem live_failure_is_isolated_witness:
  "fst (bulk_update (store_service (\<lambda>req. Inr None) [''2''])
          [[''id'' \<mapsto> ''1'', ''summary'' \<mapsto> ''Standup''],
           [''id'' \<mapsto> ''2'', ''summary'' \<mapsto> ''Retro''],
           [''id'' \<mapsto> ''3'', ''summary'' \<mapsto> ''Demo'']]
          ''primary'' None None (Some ''Room 4'') None None False
          \<lparr>stdout = [], calls = [],
           remote = [(''primary'', ''1'') \<mapsto> [''id'' \<mapsto> ''1'', ''summary'' \<mapsto> ''Standup''],
                     (''primary'', ''2'') \<mapsto> [''id'' \<mapsto> ''2'', ''summary'' \<mapsto> ''Retro''],
                     (''primary'', ''3'') \<mapsto> [''id'' \<mapsto> ''3'', ''summary'' \<mapsto> ''Demo'']]\<rparr>)
     = Inr 2
   \<and> stdout (snd (bulk_update (store_service (\<lambda>req. Inr None) [''2''])
          [[''id'' \<mapsto> ''1'', ''summary'' \<mapsto> ''Standup''],
           [''id'' \<mapsto> ''2'', ''summary'' \<mapsto> ''Retro''],
           [''id'' \<mapsto> ''3'', ''summary'' \<mapsto> ''Demo'']]
          ''primary'' None None (Some ''Room 4'') None None False
          \<lparr>stdout = [], calls = [],
           remote = [(''primary'', ''1'') \<mapsto> [''id'' \<mapsto> ''1'', ''summary'' \<mapsto> ''Standup''],
                     (''primary'', ''2'') \<mapsto> [''id'' \<mapsto> ''2'', ''summary'' \<mapsto> ''Retro''],
                     (''primary'', ''3'') \<mapsto> [''id'' \<mapsto> ''3'', ''summary'' \<mapsto> ''Demo'']]\<rparr>))
     = [UpdatedLine ''Standup'', FailedLine ''Retro'' ''Backend Error'', UpdatedLine ''Demo'']"
proof -
  let ?svc = "store_service (\<lambda>req. Inr None) [''2'']"
  let ?e1 = "[''id'' \<mapsto> ''1'', ''summary'' \<mapsto> ''Standup'']"
  let ?e2 = "[''id'' \<mapsto> ''2'', ''summary'' \<mapsto> ''Retro'']"
  let ?e3 = "[''id'' \<mapsto> ''3'', ''summary'' \<mapsto> ''Demo'']"
  let ?w = "\<lparr>stdout = [], calls = [],
             remote = [(''primary'', ''1'') \<mapsto> ?e1, (''primary'', ''2'') \<mapsto> ?e2,
                       (''primary'', ''3'') \<mapsto> ?e3]\<rparr>"
  let ?w1 = "snd (bulk_update ?svc [?e1] ''primary'' None None (Some ''Room 4'') None None False ?w)"
  let ?us = "prepare_updates ?e2 None None (Some ''Room 4'') None None"
  let ?r = "remote ?w1"
  note defs = bulk_update_def prepare_updates_def truthy_def dict_get_def Let_def try_update_def
    store_service_def store_get_def store_update_def dict_update_def
  have ids: "list_all has_id ([?e1] @ ?e2 # [?e3])"
    by (simp add: has_id_def)
  have event_id: "?e2 ''id'' = Some ''2''"
    by simp
  have spec: "?us \<noteq> []"
    by (simp add: prepare_updates_def truthy_def)
  have pre: "bulk_update ?svc [?e1] ''primary'' None None (Some ''Room 4'') None None False ?w
               = (Inr 1, ?w1)"
    by (simp add: prod_eq_iff defs)
  have fail: "events_get ?svc (remote ?w1) ''primary'' ''2'' = (Inl ''Backend Error'', ?r)
       \<or> (\<exists>full_event r'.
             events_get ?svc (remote ?w1) ''primary'' ''2'' = (Inr full_event, r') \<and>
             events_update ?svc r' ''primary'' ''2'' (dict_update full_event ?us)
               = (Inl ''Backend Error'', ?r))"
    by (simp add: defs)
  from live_failure_is_isolated [OF ids event_id spec pre fail]
  show ?thesis
    by (simp add: defs)
qed

subsection \<open>The count\<close>

text \<open>
Claim C10. The count \<open>bulk_update\<close> returns lies between 0 and the number of events
passed in, and is 0 in dry-run mode. The call returns a count unless some event lacks
its identifier, in which case it raises \<open>KeyError\<close>.
\<close>

theorem bulk_update_count_bounds:
  "case fst (bulk_update service events calendar_id nt nd nl nc ap dry_run w) of
     Inr n \<Rightarrow> 0 \<le> n \<and> n \<le> int (length events) \<and> (dry_run \<longrightarrow> n = 0)
   | Inl err \<Rightarrow> err = KeyError ''id'' \<and> \<not> list_all has_id events"
proof (cases "fst (bulk_update service events calendar_id nt nd nl nc ap dry_run w)")
  case (Inl err)
  then show ?thesis using loop_raises unfolding bulk_update_def by fastforce
next
  case (Inr n)
  then show ?thesis using loop_count_bounds unfolding bulk_update_def by fastforce
qed

text \<open>
Two events of which the store holds the first: the live run counts one, the dry run none.
\<close>

theorem bulk_update_count_bounds_witness:
  "fst (bulk_update (store_service (\<lambda>req. Inr None) [])
          [[''id'' \<mapsto> ''1'', ''summary'' \<mapsto> ''Standup''], [''id'' \<mapsto> ''2'', ''summary'' \<mapsto> ''Retro'']]
          ''primary'' None None (Some ''Room 4'') None None False
          \<lparr>stdout = [], calls = [],
           remote = [(''primary'', ''1'') \<mapsto> [''id'' \<mapsto> ''1'', ''summary'' \<mapsto> ''Standup'']]\<rparr>)
     = Inr 1 \<and>
   fst (bulk_update (store_service (\<lambda>req. Inr None) [])
          [[''id'' \<mapsto> ''1'', ''summary'' \<mapsto> ''Standup''], [''id'' \<mapsto> ''2'', ''summary'' \<mapsto> ''Retro'']]
          ''primary'' None None (Some ''Room 4'') None None True
          \<lparr>stdout = [], calls = [],
           remote = [(''primary'', ''1'') \<mapsto> [''id'' \<mapsto> ''1'', ''summary'' \<mapsto> ''Standup'']]\<rparr>)
     = Inr 0"
  using bulk_update_count_bounds [where service = "store_service (\<lambda>req. Inr None) []"
          and events = "[[''id'' \<mapsto> ''1'', ''summary'' \<mapsto> ''Standup''], [''id'' \<mapsto> ''2'', ''summary'' \<mapsto> ''Retro'']]"
          and calendar_id = "''primary''" and nt = None and nd = None and nl = "Some ''Room 4''"
          and nc = None and ap = None and dry_run = False
          and w = "\<lparr>stdout = [], calls = [],
           remote = [(''primary'', ''1'') \<mapsto> [''id'' \<mapsto> ''1'', ''summary'' \<mapsto> ''Standup'']]\<rparr>"]
  by (simp add: bulk_update_def prepare_updates_def truthy_def dict_get_def try_update_def
        store_service_def store_get_def store_update_def dict_update_def Let_def)

subsection \<open>Idempotence on the store model\<close>

lemma merge_all_empty: "merge_all us {} s = s"
  by (simp add: merge_all_def)

lemma merge_all_Nil: "merge_all [] K s = s"
  by (simp add: merge_all_def dict_update_def fun_eq_iff option.map_ident)

lemma merge_all_merge: "merge_all us K (merge_all us K' s) = merge_all us (K' \<union> K) s"
  by (auto simp: merge_all_def fun_eq_iff dict_update_idem option.map_comp comp_def)

lemma try_update_store_remote:
  "remote (snd (try_update (store_service listing rejected) cal event_id us w))
     = merge_all us (if event_id \<in> set rejected then {} else {(cal, event_id)}) (remote w)"
  by (auto simp: try_update_def store_service_def store_get_def store_update_def merge_all_def
        Let_def fun_eq_iff split: option.splits)

text \<open>
The remote store after a live run without append: the updates merged into every event
the run writes.
\<close>

lemma store_live_loop_remote:
  assumes us: "\<And>e. prepare_updates e nt nd nl nc ap = us"
  shows "remote (snd (bulk_update_loop (store_service listing rejected) cal nt nd nl nc ap False
                        events cnt w))
           = merge_all us (written_keys cal rejected events) (remote w)"
proof (induction events arbitrary: cnt w)
  case Nil
  show ?case by (simp add: merge_all_empty)
next
  case (Cons event rest)
  show ?case
  proof (cases "event ''id''")
    case None
    then show ?thesis by (simp add: merge_all_empty)
  next
    case (Some event_id)
    show ?thesis
    proof (cases "us = []")
      case True
      with Some show ?thesis by (simp add: us Cons.IH merge_all_Nil)
    next
      case False
      let ?K = "if event_id \<in> set rejected then {} else {(cal, event_id)}"
      obtain res w1 where
        tu: "try_update (store_service listing rejected) cal event_id us w = (res, w1)"
        by (cases "try_update (store_service listing rejected) cal event_id us w")
      then have r1: "remote w1 = merge_all us ?K (remote w)"
        using try_update_store_remote [of listing rejected cal event_id us w] by simp
      have "remote (snd (bulk_update_loop (store_service listing rejected) cal nt nd nl nc ap False
                           (event # rest) cnt w))
              = merge_all us (written_keys cal rejected rest) (remote w1)"
        using Some False tu by (cases res) (simp_all add: us Cons.IH)
      also have "\<dots> = merge_all us (?K \<union> written_keys cal rejected rest) (remote w)"
        by (simp only: r1 merge_all_merge)
      finally show ?thesis using Some by simp
    qed
  qed
qed

text \<open>
Claim C7. Against the store model of the remote service, a live run without
description-append followed by the same run leaves the store the first run left: every
event has the same fields as after one run.
\<close>

theorem live_replacement_is_idempotent:
  "remote (snd (bulk_update (store_service listing rejected) events calendar_id nt nd nl nc None False
             (snd (bulk_update (store_service listing rejected) events calendar_id nt nd nl nc None
                     False w))))
     = remote (snd (bulk_update (store_service listing rejected) events calendar_id nt nd nl nc None
                      False w))"
proof -
  let ?us = "prepare_updates Map.empty nt nd nl nc None"
  have us: "\<And>e. prepare_updates e nt nd nl nc None = ?us"
    by (rule prepare_updates_no_append)
  show ?thesis
    unfolding bulk_update_def
    by (simp only: store_live_loop_remote [OF us] merge_all_merge Un_absorb)
qed

text \<open>
Title and colour set twice on an event with a location: the fields after two runs and
after one.
\<close>

theorem live_replacement_is_idempotent_witness:
  "Option.bind
     (remote (snd (bulk_update (store_service (\<lambda>req. Inr None) [])
        [[''id'' \<mapsto> ''1'', ''summary'' \<mapsto> ''Team Meeting'']]
        ''primary'' (Some ''Team Sync'') None None (Some ''9'') None False
        (snd (bulk_update (store_service (\<lambda>req. Inr None) [])
           [[''id'' \<mapsto> ''1'', ''summary'' \<mapsto> ''Team Meeting'']]
           ''primary'' (Some ''Team Sync'') None None (Some ''9'') None False
           \<lparr>stdout = [], calls = [],
            remote = [(''primary'', ''1'') \<mapsto>
                        [''id'' \<mapsto> ''1'', ''summary'' \<mapsto> ''Team Meeting'',
                         ''location'' \<mapsto> ''Room 4'']]\<rparr>))))
       (''primary'', ''1''))
     (\<lambda>e. Some (map e [''id'', ''summary'', ''location'', ''colorId'', ''description'']))
   = Some [Some ''1'', Some ''Team Sync'', Some ''Room 4'', Some ''9'', None]
   \<and> Option.bind
     (remote (snd (bulk_update (store_service (\<lambda>req. Inr None) [])
           [[''id'' \<mapsto> ''1'', ''summary'' \<mapsto> ''Team Meeting'']]
           ''primary'' (Some ''Team Sync'') None None (Some ''9'') None False
           \<lparr>stdout = [], calls = [],
            remote = [(''primary'', ''1'') \<mapsto>
                        [''id'' \<mapsto> ''1'', ''summary'' \<mapsto> ''Team Meeting'',
                         ''location'' \<mapsto> ''Room 4'']]\<rparr>))
       (''primary'', ''1''))
     (\<lambda>e. Some (map e [''id'', ''summary'', ''location'', ''colorId'', ''description'']))
   = Some [Some ''1'', Some ''Team Sync'', Some ''Room 4'', Some ''9'', None]"
  using live_replacement_is_idempotent [where listing = "\<lambda>req. Inr None" and rejected = "[]"
      and events = "[[''id'' \<mapsto> ''1'', ''summary'' \<mapsto> ''Team Meeting'']]"
      and calendar_id = "''primary''" and nt = "Some ''Team Sync''" and nd = None and nl = None
      and nc = "Some ''9''"
      and w = "\<lparr>stdout = [], calls = [],
            remote = [(''primary'', ''1'') \<mapsto>
                        [''id'' \<mapsto> ''1'', ''summary'' \<mapsto> ''Team Meeting'',
                         ''location'' \<mapsto> ''Room 4'']]\<rparr>"]
  by (simp add: bulk_update_def prepare_updates_def truthy_def dict_get_def Let_def try_update_def
    store_service_def store_get_def store_update_def dict_update_def)

section \<open>Authentication\<close>



end
